theory Spec2Isabelle
  imports Main
begin

section \<open>The process and its streams\<close>

text \<open>
  An argument token is the content of a NUL-terminated C string, a list of bytes.
  The part of the outside world a process can touch is a record: the unread bytes of
  standard input, the bytes written so far to standard output and to the error stream,
  the environment and the file system. Every function below works on the record
  scheme, so whatever else the world holds (the network included) is the record's
  extension part.
\<close>

record world =
  stdin :: string
  stdout :: string
  stderr :: string
  env :: "string \<rightharpoonup> string"
  files :: "string \<rightharpoonup> string"

subsection \<open>The two functions of stdio.h that main.c calls\<close>

text \<open>
  \<^verbatim>\<open>puts(s)\<close> writes the string and a newline to standard output. The source
  drops the value it returns, and so does the model; a write to standard output is
  taken to succeed.
\<close>

definition puts :: "string \<Rightarrow> 'a world_scheme \<Rightarrow> 'a world_scheme" where
  "puts s w = w\<lparr>stdout := stdout w @ s @ ''\<newline>''\<rparr>"

text \<open>
  \<^verbatim>\<open>printf(fmt, ...)\<close> walks the format string. An ordinary byte is copied; the
  directive \<^verbatim>\<open>%s\<close> takes the next argument and copies its bytes as they are;
  \<^verbatim>\<open>%%\<close> gives one percent sign. Arguments left over are ignored. A
  \<^verbatim>\<open>%s\<close> with no argument left, a percent sign that ends the format, and the
  conversions main.c never uses have no result here (\<open>None\<close>): the first two are
  undefined behaviour in C.
\<close>

fun format :: "string \<Rightarrow> string list \<Rightarrow> string option" where
  "format [] args = Some []"
| "format (c # fs) args =
     (if c = CHR ''%'' then
        (case fs of
           [] \<Rightarrow> None
         | d # fs' \<Rightarrow>
             if d = CHR ''s'' then
               (case args of
                  [] \<Rightarrow> None
                | a # args' \<Rightarrow> map_option (\<lambda>out. a @ out) (format fs' args'))
             else if d = CHR ''%'' then map_option (\<lambda>out. CHR ''%'' # out) (format fs' args)
             else None)
      else map_option (\<lambda>out. c # out) (format fs args))"

definition printf :: "string \<Rightarrow> string list \<Rightarrow> 'a world_scheme \<Rightarrow> 'a world_scheme option" where
  "printf fmt args w = map_option (\<lambda>out. w\<lparr>stdout := stdout w @ out\<rparr>) (format fmt args)"

subsection \<open>main\<close>

text \<open>
  \<^verbatim>\<open>argv[i]\<close>: the vector holds one string for each of its tokens. A read at or
  past its end gives no string (the null pointer at \<^verbatim>\<open>argv[argc]\<close>, whose use
  as a string is undefined, or a read out of bounds), so it has no result.
\<close>

definition argv_at :: "string list \<Rightarrow> nat \<Rightarrow> string option" where
  "argv_at argv i = (if i < length argv then Some (argv ! i) else None)"

text \<open>
  \<^verbatim>\<open>
  int main(int argc, char **argv) {
    if (argc < 3) {
      puts("Usage: clog <input dir> <output dir>");
      return 1;
    }
    char *input_dir = argv[1];
    char *output_dir = argv[2];
    printf("input dir: %s\n", input_dir);
    printf("output dir: %s\n", output_dir);
    return 0;
  }
  \<close>
  The result is the exit status and the world after the run, or \<open>None\<close> when the run
  has no defined result. \<open>argc\<close> is only compared with 3, never computed with, so it is
  an \<open>int\<close>.
\<close>

definition main :: "int \<Rightarrow> string list \<Rightarrow> 'a world_scheme \<Rightarrow> (int \<times> 'a world_scheme) option" where
  "main argc argv w =
     (if argc < 3 then
        Some (1, puts ''Usage: clog <input dir> <output dir>'' w)
      else
        (case argv_at argv 1 of
           None \<Rightarrow> None
         | Some input_dir \<Rightarrow>
             (case argv_at argv 2 of
                None \<Rightarrow> None
              | Some output_dir \<Rightarrow>
                  (case printf ''input dir: %s\<newline>'' [input_dir] w of
                     None \<Rightarrow> None
                   | Some w1 \<Rightarrow>
                       (case printf ''output dir: %s\<newline>'' [output_dir] w1 of
                          None \<Rightarrow> None
                        | Some w2 \<Rightarrow> Some (0, w2))))))"

text \<open>
  The hosted environment starts the program on an argument list: \<open>argc\<close> is the number
  of tokens, the invocation name at position 0 included, and \<open>argv\<close> holds the tokens.
\<close>

definition run :: "string list \<Rightarrow> 'a world_scheme \<Rightarrow> (int \<times> 'a world_scheme) option" where
  "run args w = main (int (length args)) args w"

text \<open>A process started with nothing on its streams, no environment and no files.\<close>

definition empty_world :: world where
  "empty_world = \<lparr>stdin = [], stdout = [], stderr = [], env = Map.empty, files = Map.empty\<rparr>"

text \<open>
  What a reader of standard output sees: the bytes cut at each newline, the newline
  itself dropped, and the bytes after the last newline, when there are any, as a last
  line.
\<close>

fun lines_of :: "string \<Rightarrow> string list" where
  "lines_of [] = []"
| "lines_of (c # cs) =
     (if c = CHR ''\<newline>'' then [] # lines_of cs
      else (case lines_of cs of
              [] \<Rightarrow> [[c]]
            | l # ls \<Rightarrow> (c # l) # ls))"

section \<open>What the two calls of printf write\<close>

lemma format_input_dir:
  "format ''input dir: %s\<newline>'' [a] = Some (''input dir: '' @ a @ ''\<newline>'')"
  by simp

lemma format_output_dir:
  "format ''output dir: %s\<newline>'' [a] = Some (''output dir: '' @ a @ ''\<newline>'')"
  by simp

lemma main_usage:
  "argc < 3 \<Longrightarrow>
   main argc argv w =
     Some (1, w\<lparr>stdout := stdout w @ ''Usage: clog <input dir> <output dir>\<newline>''\<rparr>)"
  by (simp add: main_def puts_def)

lemma main_echo:
  "3 \<le> argc \<Longrightarrow> 2 < length argv \<Longrightarrow>
   main argc argv w =
     Some (0, w\<lparr>stdout := stdout w @ ''input dir: '' @ argv ! 1 @ ''\<newline>''
                                   @ ''output dir: '' @ argv ! 2 @ ''\<newline>''\<rparr>)"
  by (simp add: main_def argv_at_def printf_def)

lemma run_usage:
  "length args < 3 \<Longrightarrow>
   run args w = Some (1, w\<lparr>stdout := stdout w @ ''Usage: clog <input dir> <output dir>\<newline>''\<rparr>)"
  by (simp add: run_def main_usage)

lemma run_echo:
  "3 \<le> length args \<Longrightarrow>
   run args w =
     Some (0, w\<lparr>stdout := stdout w @ ''input dir: '' @ args ! 1 @ ''\<newline>''
                                   @ ''output dir: '' @ args ! 2 @ ''\<newline>''\<rparr>)"
  by (simp add: run_def main_echo)

lemma run_total: "\<exists>st out. run args w = Some (st, w\<lparr>stdout := stdout w @ out\<rparr>)"
proof (cases "length args < 3")
  case True
  then have "run args w =
      Some (1, w\<lparr>stdout := stdout w @ ''Usage: clog <input dir> <output dir>\<newline>''\<rparr>)"
    by (rule run_usage)
  then show ?thesis by blast
next
  case False
  then have "3 \<le> length args" by simp
  then have "run args w =
      Some (0, w\<lparr>stdout := stdout w @ ''input dir: '' @ args ! 1 @ ''\<newline>''
                                    @ ''output dir: '' @ args ! 2 @ ''\<newline>''\<rparr>)"
    by (rule run_echo)
  then show ?thesis by blast
qed

lemma lines_of_terminated:
  "CHR ''\<newline>'' \<notin> set l \<Longrightarrow> lines_of (l @ CHR ''\<newline>'' # rest) = l # lines_of rest"
  by (induction l) auto

lemma lines_of_echo:
  assumes "CHR ''\<newline>'' \<notin> set a" and "CHR ''\<newline>'' \<notin> set b"
  shows "lines_of (''input dir: '' @ a @ ''\<newline>'' @ ''output dir: '' @ b @ ''\<newline>'') =
           [''input dir: '' @ a, ''output dir: '' @ b]"
proof -
  have "lines_of ((''input dir: '' @ a) @ CHR ''\<newline>'' # (''output dir: '' @ b) @ ''\<newline>'') =
          (''input dir: '' @ a) # lines_of ((''output dir: '' @ b) @ CHR ''\<newline>'' # [])"
    using assms(1) by (intro lines_of_terminated) simp
  also have "lines_of ((''output dir: '' @ b) @ CHR ''\<newline>'' # []) = [''output dir: '' @ b]"
    using assms(2) by (subst lines_of_terminated) simp_all
  finally show ?thesis by simp
qed

lemma echo_is_not_usage:
  "''input dir: '' @ a @ ''\<newline>'' @ ''output dir: '' @ b @ ''\<newline>''
     \<noteq> ''Usage: clog <input dir> <output dir>\<newline>''"
  by simp

text \<open>
  The format string is interpreted, its arguments are not: had main.c passed a token
  as the format, its directives would have asked for arguments that are not there.
\<close>

lemma format_reads_directives_of_the_format_only:
  "format ''%s%n'' [] = None"
  "format ''%s'' [''%s%n''] = Some ''%s%n''"
  by simp_all

section \<open>The claims\<close>

text \<open>
  C1. An argument list of fewer than three tokens (the invocation name and at most one
  positional argument, or no token at all): the run writes the line
  \<^verbatim>\<open>Usage: clog <input dir> <output dir>\<close> and a newline to standard output,
  nothing else, and ends with exit status 1.
\<close>

theorem usage_on_fewer_than_three_tokens:
  "length args < 3 \<Longrightarrow>
   run args w =
     Some (1, w\<lparr>stdout := stdout w @ ''Usage: clog <input dir> <output dir>\<newline>''\<rparr>)"
  by (rule run_usage)

theorem usage_on_fewer_than_three_tokens_witness:
  "length [''clog'', ''foo''] < 3 \<and>
   run [''clog'', ''foo''] empty_world =
     Some (1, empty_world\<lparr>stdout := ''Usage: clog <input dir> <output dir>\<newline>''\<rparr>)"
  using usage_on_fewer_than_three_tokens [of "[''clog'', ''foo'']" empty_world]
  by (simp add: empty_world_def)

text \<open>
  C2, as amended. An argument list of at least three tokens: the run writes the bytes
  \<^verbatim>\<open>input dir: \<close>, the first positional argument and a newline, then
  \<^verbatim>\<open>output dir: \<close>, the second positional argument and a newline, nothing else,
  and ends with exit status 0. When neither of the two arguments holds a newline byte,
  these bytes are exactly two lines, \<^verbatim>\<open>input dir: <first>\<close> then
  \<^verbatim>\<open>output dir: <second>\<close>.
\<close>

theorem echo_bytes_and_two_lines:
  "3 \<le> length args \<Longrightarrow>
   run args w =
     Some (0, w\<lparr>stdout := stdout w @ ''input dir: '' @ args ! 1 @ ''\<newline>''
                                   @ ''output dir: '' @ args ! 2 @ ''\<newline>''\<rparr>)
   \<and> (CHR ''\<newline>'' \<notin> set (args ! 1) \<and> CHR ''\<newline>'' \<notin> set (args ! 2) \<longrightarrow>
        lines_of (''input dir: '' @ args ! 1 @ ''\<newline>''
                    @ ''output dir: '' @ args ! 2 @ ''\<newline>'') =
          [''input dir: '' @ args ! 1, ''output dir: '' @ args ! 2])"
  using lines_of_echo [of "args ! 1" "args ! 2"] by (simp add: run_echo)

theorem echo_bytes_and_two_lines_witness:
  "3 \<le> length [''clog'', ''/tmp/in'', ''/tmp/out'']
   \<and> CHR ''\<newline>'' \<notin> set ''/tmp/in'' \<and> CHR ''\<newline>'' \<notin> set ''/tmp/out''
   \<and> run [''clog'', ''/tmp/in'', ''/tmp/out''] empty_world =
       Some (0, empty_world\<lparr>stdout := ''input dir: /tmp/in\<newline>output dir: /tmp/out\<newline>''\<rparr>)
   \<and> lines_of ''input dir: /tmp/in\<newline>output dir: /tmp/out\<newline>'' =
       [''input dir: /tmp/in'', ''output dir: /tmp/out'']"
  using echo_bytes_and_two_lines [of "[''clog'', ''/tmp/in'', ''/tmp/out'']" empty_world]
  by (simp add: empty_world_def)

text \<open>
  C2, as the claim has it, fails on a positional argument that holds a newline byte:
  the argument is echoed as it is, and the run on \<^verbatim>\<open>clog 'a\nb' c\<close> writes
  three lines, not two.
\<close>

theorem echo_of_a_newline_is_three_lines:
  "3 \<le> length [''clog'', ''a\<newline>b'', ''c'']
   \<and> run [''clog'', ''a\<newline>b'', ''c''] empty_world =
       Some (0, empty_world\<lparr>stdout := ''input dir: a\<newline>b\<newline>output dir: c\<newline>''\<rparr>)
   \<and> lines_of ''input dir: a\<newline>b\<newline>output dir: c\<newline>'' =
       [''input dir: a'', ''b'', ''output dir: c'']
   \<and> length (lines_of ''input dir: a\<newline>b\<newline>output dir: c\<newline>'') \<noteq> 2"
  by (simp add: run_echo empty_world_def)

text \<open>
  C3. Every run ends with exit status 0 or 1. The status is 1 exactly when fewer than two
  positional arguments (the tokens after the invocation name) are supplied, and exactly
  then the usage line is what the run writes. In every other case the status is 0, and
  what the run writes is the echo of the two arguments.
\<close>

theorem exit_status_zero_or_one:
  "\<exists>st w'. run args w = Some (st, w')
     \<and> (st = 0 \<or> st = 1)
     \<and> (st = 1 \<longleftrightarrow> length (tl args) < 2)
     \<and> (stdout w' = stdout w @ ''Usage: clog <input dir> <output dir>\<newline>''
          \<longleftrightarrow> length (tl args) < 2)
     \<and> (length (tl args) < 2 \<longrightarrow>
          stdout w' = stdout w @ ''Usage: clog <input dir> <output dir>\<newline>'')
     \<and> (\<not> length (tl args) < 2 \<longrightarrow>
          st = 0
          \<and> stdout w' = stdout w @ ''input dir: '' @ args ! 1 @ ''\<newline>''
                                   @ ''output dir: '' @ args ! 2 @ ''\<newline>'')"
proof (cases "length args < 3")
  case True
  then have "length (tl args) < 2" by simp
  with True show ?thesis by (simp add: run_usage)
next
  case False
  then have "\<not> length (tl args) < 2" and "3 \<le> length args" by simp_all
  then show ?thesis
    using echo_is_not_usage [of "args ! 1" "args ! 2"] by (simp add: run_echo)
qed

theorem exit_status_zero_or_one_witness:
  "length (tl [''clog'', ''foo'']) < 2
   \<and> (\<exists>w'. run [''clog'', ''foo''] empty_world = Some (1, w')
         \<and> stdout w' = ''Usage: clog <input dir> <output dir>\<newline>'')
   \<and> \<not> length (tl [''clog'', ''a'', ''b'']) < 2
   \<and> (\<exists>w'. run [''clog'', ''a'', ''b''] empty_world = Some (0, w')
         \<and> stdout w' = ''input dir: a\<newline>output dir: b\<newline>''
         \<and> stdout w' \<noteq> ''Usage: clog <input dir> <output dir>\<newline>'')"
  using exit_status_zero_or_one [of "[''clog'', ''foo'']" empty_world]
    exit_status_zero_or_one [of "[''clog'', ''a'', ''b'']" empty_world]
  by (auto simp add: empty_world_def)

text \<open>
  C4. Two argument lists with the same invocation name and the same first two
  positional arguments, whatever follows the second: run from the same world, they
  write the same bytes to standard output and end with the same exit status (the whole
  result is the same).
\<close>

theorem arguments_past_the_second_are_ignored:
  "run (name # a # b # rest) w = run (name # a # b # rest') w"
  by (simp add: run_echo)

text \<open>
  C5. The run has a result on every argument list. \<open>main\<close> has one whenever the
  vector holds at least \<open>argc\<close> tokens, so no read of \<open>argv\<close> is out of bounds; with
  \<open>argc\<close> below 3 its result is the one it has on the empty vector, where any read
  would have none, so \<open>argv[1]\<close> and \<open>argv[2]\<close> are read on the other branch only.
  A list of fewer than three tokens gives the usage line and exit status 1.
\<close>

theorem run_is_total_and_reads_in_bounds:
  "(\<exists>st w'. run args w = Some (st, w'))
   \<and> (argc \<le> int (length argv) \<longrightarrow> (\<exists>st w'. main argc argv w = Some (st, w')))
   \<and> (argc < 3 \<longrightarrow> main argc argv w = main argc [] w)
   \<and> (length args < 3 \<longrightarrow>
        run args w =
          Some (1, w\<lparr>stdout := stdout w @ ''Usage: clog <input dir> <output dir>\<newline>''\<rparr>))"
proof -
  have total: "\<exists>st w'. run args w = Some (st, w')"
    using run_total [of args w] by blast
  have safe: "\<exists>st w'. main argc argv w = Some (st, w')" if "argc \<le> int (length argv)"
  proof (cases "argc < 3")
    case True
    then show ?thesis by (simp add: main_usage)
  next
    case False
    with that have "3 \<le> argc" and "2 < length argv" by simp_all
    then show ?thesis by (simp add: main_echo)
  qed
  have unread: "main argc argv w = main argc [] w" if "argc < 3"
    using that by (simp add: main_usage)
  have usage: "run args w =
      Some (1, w\<lparr>stdout := stdout w @ ''Usage: clog <input dir> <output dir>\<newline>''\<rparr>)"
    if "length args < 3"
    using that by (rule run_usage)
  from total safe unread usage show ?thesis by blast
qed

theorem run_is_total_and_reads_in_bounds_witness:
  "(\<exists>st w'. run [''clog''] empty_world = Some (st, w'))
   \<and> (3::int) \<le> int (length [''clog'', ''a'', ''b''])
   \<and> (\<exists>st w'. main 3 [''clog'', ''a'', ''b''] empty_world = Some (st, w'))
   \<and> (2::int) < 3
   \<and> main 2 [''clog'', ''a'', ''b''] empty_world = main 2 [] empty_world
   \<and> length [''clog''] < 3
   \<and> run [''clog''] empty_world =
       Some (1, empty_world\<lparr>stdout := ''Usage: clog <input dir> <output dir>\<newline>''\<rparr>)"
  using run_is_total_and_reads_in_bounds
      [of "[''clog'']" empty_world 3 "[''clog'', ''a'', ''b'']"]
    run_is_total_and_reads_in_bounds
      [of "[''clog'']" empty_world 2 "[''clog'', ''a'', ''b'']"]
  by (simp add: empty_world_def)

text \<open>
  C6. The only effect of a run is on standard output, which grows by what the run
  writes (the usage line included): standard input is left unread, the error stream,
  the environment, the file system and the rest of the world are as they were. Nothing
  of them is consulted either: with other contents of standard input, the environment
  and the file system, the run ends with the same status and writes the same bytes.
\<close>

theorem only_stdout_is_written:
  "\<exists>st w' out. run args w = Some (st, w')
     \<and> stdout w' = stdout w @ out
     \<and> stdin w' = stdin w
     \<and> stderr w' = stderr w
     \<and> env w' = env w
     \<and> files w' = files w
     \<and> world.more w' = world.more w
     \<and> run args (w\<lparr>stdin := i, env := e, files := f\<rparr>) =
          Some (st, w'\<lparr>stdin := i, env := e, files := f\<rparr>)"
proof (cases "length args < 3")
  case True
  let ?out = "''Usage: clog <input dir> <output dir>\<newline>''"
  from True have "run args w = Some (1, w\<lparr>stdout := stdout w @ ?out\<rparr>)"
    and "run args (w\<lparr>stdin := i, env := e, files := f\<rparr>) =
      Some (1, w\<lparr>stdout := stdout w @ ?out\<rparr>\<lparr>stdin := i, env := e, files := f\<rparr>)"
    by (simp_all add: run_usage)
  then show ?thesis
    by (intro exI [of _ 1] exI [of _ "w\<lparr>stdout := stdout w @ ?out\<rparr>"] exI [of _ ?out]) simp
next
  case False
  let ?out = "''input dir: '' @ args ! 1 @ ''\<newline>'' @ ''output dir: '' @ args ! 2 @ ''\<newline>''"
  from False have "3 \<le> length args" by simp
  then have "run args w = Some (0, w\<lparr>stdout := stdout w @ ?out\<rparr>)"
    and "run args (w\<lparr>stdin := i, env := e, files := f\<rparr>) =
      Some (0, w\<lparr>stdout := stdout w @ ?out\<rparr>\<lparr>stdin := i, env := e, files := f\<rparr>)"
    by (simp_all add: run_echo)
  then show ?thesis
    by (intro exI [of _ 0] exI [of _ "w\<lparr>stdout := stdout w @ ?out\<rparr>"] exI [of _ ?out]) simp
qed

text \<open>
  C7. The exit status and the bytes written are a function of the argument list alone:
  two runs on the same list, from any two worlds (other environment, other files, other
  streams), end with the same status and write the same bytes to standard output.
\<close>

theorem same_arguments_same_behaviour:
  "\<exists>st out. run args w = Some (st, w\<lparr>stdout := stdout w @ out\<rparr>)
     \<and> run args v = Some (st, v\<lparr>stdout := stdout v @ out\<rparr>)"
proof (cases "length args < 3")
  case True
  then have "run args w =
      Some (1, w\<lparr>stdout := stdout w @ ''Usage: clog <input dir> <output dir>\<newline>''\<rparr>)"
    and "run args v =
      Some (1, v\<lparr>stdout := stdout v @ ''Usage: clog <input dir> <output dir>\<newline>''\<rparr>)"
    by (rule run_usage)+
  then show ?thesis by blast
next
  case False
  then have "3 \<le> length args" by simp
  then have "run args w =
      Some (0, w\<lparr>stdout := stdout w @ ''input dir: '' @ args ! 1 @ ''\<newline>''
                                    @ ''output dir: '' @ args ! 2 @ ''\<newline>''\<rparr>)"
    and "run args v =
      Some (0, v\<lparr>stdout := stdout v @ ''input dir: '' @ args ! 1 @ ''\<newline>''
                                    @ ''output dir: '' @ args ! 2 @ ''\<newline>''\<rparr>)"
    by (rule run_echo)+
  then show ?thesis by blast
qed

text \<open>
  C8. The two positional arguments are data for the fixed formats
  \<^verbatim>\<open>input dir: %s\<close> and \<^verbatim>\<open>output dir: %s\<close>: whatever bytes they hold,
  percent signs and directives included, each is copied unchanged between its prefix
  and the newline, by the formatter and so by the run.
\<close>

theorem arguments_are_echoed_verbatim:
  "format ''input dir: %s\<newline>'' [a] = Some (''input dir: '' @ a @ ''\<newline>'')
   \<and> format ''output dir: %s\<newline>'' [b] = Some (''output dir: '' @ b @ ''\<newline>'')
   \<and> run (name # a # b # rest) w =
       Some (0, w\<lparr>stdout := stdout w @ ''input dir: '' @ a @ ''\<newline>''
                                     @ ''output dir: '' @ b @ ''\<newline>''\<rparr>)"
  by (simp add: run_echo)

theorem arguments_are_echoed_verbatim_witness:
  "run [''clog'', ''%s%n %d'', ''a b; 100%''] empty_world =
     Some (0, empty_world\<lparr>stdout := ''input dir: %s%n %d\<newline>output dir: a b; 100%\<newline>''\<rparr>)"
  using arguments_are_echoed_verbatim [of "''%s%n %d''" "''a b; 100%''" "''clog''" "[]" empty_world]
  by (simp add: empty_world_def)

text \<open>
  C9. Two argument lists that differ in the invocation name only: run from the same
  world, they write the same bytes and end with the same status. The token at
  position 0 counts for the length, its value is not used.
\<close>

theorem invocation_name_is_not_used:
  "run (name # rest) w = run (name' # rest) w"
proof (cases "length rest < 2")
  case True
  then show ?thesis by (simp add: run_usage)
next
  case False
  then have "3 \<le> length (name # rest)" and "3 \<le> length (name' # rest)" by simp_all
  then show ?thesis by (simp add: run_echo)
qed

text \<open>
  C10. Two empty positional arguments pass the check on the count: the run writes
  \<^verbatim>\<open>input dir: \<close> and \<^verbatim>\<open>output dir: \<close>, each followed by a newline and
  with nothing after the prefix, and ends with exit status 0.
\<close>

theorem empty_arguments_are_echoed:
  "run [name, [], []] w =
     Some (0, w\<lparr>stdout := stdout w @ ''input dir: \<newline>output dir: \<newline>''\<rparr>)"
  by (simp add: run_echo)

end
